theory Spec2Isabelle
  imports Main "HOL-Library.Sublist"
begin

section \<open>Python values\<close>

subsection \<open>Strings\<close>

text \<open>
  A Python \<open>str\<close> is a sequence of Unicode code points. The report templates of
  \<open>tools.py\<close> contain code points beyond ASCII (U+1F4CA, U+2500, U+25B8, ...), so a
  string is modelled as the list of its code points and a literal is written
  \<open>lit ''...''\<close> for its ASCII part. Python's \<open>a in b\<close> on strings is
  \<^const>\<open>sublist\<close> (a contiguous occurrence).
\<close>

type_synonym pystr = "nat list"

definition lit :: "string \<Rightarrow> pystr" where
  "lit s = map of_char s"

text \<open>\<open>sep.join(xs)\<close>\<close>

fun join :: "pystr \<Rightarrow> pystr list \<Rightarrow> pystr" where
  "join sep [] = []"
| "join sep [x] = x"
| "join sep (x # y # ys) = x @ sep @ join sep (y # ys)"

text \<open>
  \<open>str.strip()\<close> removes the code points for which \<open>str.isspace\<close> holds from
  both ends.
\<close>

definition isspace :: "nat \<Rightarrow> bool" where
  "isspace c \<longleftrightarrow>
     (9 \<le> c \<and> c \<le> 13) \<or> (28 \<le> c \<and> c \<le> 32) \<or> c = 133 \<or> c = 160 \<or> c = 5760 \<or>
     (8192 \<le> c \<and> c \<le> 8202) \<or> c = 8232 \<or> c = 8233 \<or> c = 8239 \<or> c = 8287 \<or>
     c = 12288"

definition strip :: "pystr \<Rightarrow> pystr" where
  "strip s = rev (dropWhile isspace (rev (dropWhile isspace s)))"

text \<open>
  \<open>str.upper()\<close> and \<open>str.lower()\<close>: on a string of ASCII code points they map the
  26 letters and nothing else. On any other string they follow the case tables of the
  Unicode database, which are no part of the repository: they are the two fields of
  \<open>unicode_db\<close>, a parameter of every function that changes case.
\<close>

record unicode_db =
  unicode_upper :: "pystr \<Rightarrow> pystr"
  unicode_lower :: "pystr \<Rightarrow> pystr"

definition isascii :: "pystr \<Rightarrow> bool" where
  "isascii s \<longleftrightarrow> (\<forall>c \<in> set s. c < 128)"

definition ascii_upper :: "nat \<Rightarrow> nat" where
  "ascii_upper c = (if 97 \<le> c \<and> c \<le> 122 then c - 32 else c)"

definition ascii_lower :: "nat \<Rightarrow> nat" where
  "ascii_lower c = (if 65 \<le> c \<and> c \<le> 90 then c + 32 else c)"

definition upper :: "unicode_db \<Rightarrow> pystr \<Rightarrow> pystr" where
  "upper U s = (if isascii s then map ascii_upper s else unicode_upper U s)"

definition lower :: "unicode_db \<Rightarrow> pystr \<Rightarrow> pystr" where
  "lower U s = (if isascii s then map ascii_lower s else unicode_lower U s)"

text \<open>A database that leaves every non-ASCII string alone, for evaluating examples.\<close>

definition ascii_db :: unicode_db where
  "ascii_db = \<lparr>unicode_upper = (\<lambda>s. s), unicode_lower = (\<lambda>s. s)\<rparr>"

subsection \<open>Integers as text\<close>

text \<open>\<open>str(n)\<close> for an \<open>int\<close>: decimal digits, a minus sign when negative.\<close>

definition digit :: "nat \<Rightarrow> nat" where
  "digit d = 48 + d"

function show_nat :: "nat \<Rightarrow> pystr" where
  "show_nat n = (if n < 10 then [digit n] else show_nat (n div 10) @ [digit (n mod 10)])"
  by pat_completeness auto
termination
  by (relation "measure id") auto

declare show_nat.simps [simp del]

definition show_int :: "int \<Rightarrow> pystr" where
  "show_int i = (if i < 0 then lit ''-'' @ show_nat (nat (- i)) else show_nat (nat i))"

text \<open>
  The \<open>,\<close> option of the format mini-language: a comma before every group of three
  digits, counted from the right.
\<close>

function group3 :: "pystr \<Rightarrow> pystr" where
  "group3 ds = (if length ds \<le> 3 then ds
                else group3 (take (length ds - 3) ds) @ lit '','' @ drop (length ds - 3) ds)"
  by pat_completeness auto
termination
  by (relation "measure length") auto

declare group3.simps [simp del]

text \<open>\<open>f"{i:,}"\<close> for an \<open>int\<close>\<close>

definition fmt_comma_int :: "int \<Rightarrow> pystr" where
  "fmt_comma_int i =
     (if i < 0 then lit ''-'' @ group3 (show_nat (nat (- i))) else group3 (show_nat (nat i)))"

subsection \<open>Floats\<close>

text \<open>
  A \<open>float\<close> (and a \<open>numpy.float64\<close>, its subclass) is a sign, a mantissa and a
  binary exponent, \<open>Finite s m e\<close> standing for \<open>(-1)^s * m * 2^e\<close>, or an infinity,
  or NaN. The model puts no bound on mantissa and exponent: the formatting below is
  exact arithmetic on the value, as CPython's correctly rounded conversion is.
\<close>

datatype pyfloat = Finite bool nat int | Inf bool | NaN

text \<open>
  The value times 100, rounded to the nearest integer, ties to even: the digits that
  the presentation type \<open>.2f\<close> prints.
\<close>

definition hundredths :: "nat \<Rightarrow> int \<Rightarrow> nat" where
  "hundredths m e =
     (if 0 \<le> e then m * 2 ^ nat e * 100
      else let d = 2 ^ nat (- e); q = (m * 100) div d; r = (m * 100) mod d
           in if 2 * r < d then q
              else if d < 2 * r then q + 1
              else if even q then q else q + 1)"

definition two_digits :: "nat \<Rightarrow> pystr" where
  "two_digits n = [digit ((n div 10) mod 10), digit (n mod 10)]"

text \<open>\<open>f"{x:.2f}"\<close>\<close>

fun fmt_2f :: "pyfloat \<Rightarrow> pystr" where
  "fmt_2f NaN = lit ''nan''"
| "fmt_2f (Inf s) = (if s then lit ''-inf'' else lit ''inf'')"
| "fmt_2f (Finite s m e) =
     (let h = hundredths m e
      in (if s then lit ''-'' else []) @ show_nat (h div 100) @ lit ''.'' @ two_digits (h mod 100))"

text \<open>\<open>f"{x:,.2f}"\<close>\<close>

fun fmt_comma_2f :: "pyfloat \<Rightarrow> pystr" where
  "fmt_comma_2f NaN = lit ''nan''"
| "fmt_comma_2f (Inf s) = (if s then lit ''-inf'' else lit ''inf'')"
| "fmt_comma_2f (Finite s m e) =
     (let h = hundredths m e
      in (if s then lit ''-'' else []) @ group3 (show_nat (h div 100)) @ lit ''.'' @
         two_digits (h mod 100))"

subsection \<open>Timestamps\<close>

text \<open>
  A \<open>pandas.Timestamp\<close> is a count of nanoseconds since 1970-01-01 00:00; the missing
  value \<open>NaT\<close> of a datetime column is \<open>None\<close> of \<open>timestamp option\<close>.
  \<open>datetime.now()\<close> is an input of the functions that read the clock, an instant
  of the same kind.
\<close>

datatype timestamp = Timestamp (ns: int)

definition ns_per_day :: int where
  "ns_per_day = 86400000000000"

text \<open>The proleptic Gregorian date (year, month, day) of a day number counted from 1970-01-01.\<close>

definition civil_from_days :: "int \<Rightarrow> int \<times> int \<times> int" where
  "civil_from_days z0 =
     (let z = z0 + 719468;
          era = z div 146097;
          doe = z mod 146097;
          yoe = (doe - doe div 1460 + doe div 36524 - doe div 146096) div 365;
          doy = doe - (365 * yoe + yoe div 4 - yoe div 100);
          mp = (5 * doy + 2) div 153;
          d = doy - (153 * mp + 2) div 5 + 1;
          m = (if mp < 10 then mp + 3 else mp - 9);
          y = yoe + era * 400 + (if m \<le> 2 then 1 else 0)
      in (y, m, d))"

definition zfill :: "nat \<Rightarrow> pystr \<Rightarrow> pystr" where
  "zfill n s = replicate (n - length s) (digit 0) @ s"

text \<open>
  \<open>t.strftime('%Y-%m-%d')\<close>. The years a \<open>Timestamp\<close> can hold (1677 to 2262) have
  four digits.
\<close>

definition strftime_ymd :: "timestamp \<Rightarrow> pystr" where
  "strftime_ymd t =
     (case civil_from_days (ns t div ns_per_day) of
        (y, m, d) \<Rightarrow> zfill 4 (show_int y) @ lit ''-'' @ zfill 2 (show_int m) @ lit ''-'' @
                     zfill 2 (show_int d))"

subsection \<open>Scalars\<close>

text \<open>
  The objects the formatters tell apart. A \<open>pyval\<close> is a \<open>float\<close> or another object.
  Of the other objects, \<open>PyInt\<close> is a Python \<open>int\<close>, \<open>PyNpInt\<close> a \<open>numpy.integer\<close>
  (no subclass of \<open>int\<close>), and \<open>PyNpFloating nan t\<close> a \<open>numpy.floating\<close> that is no
  \<open>float64\<close> (so no subclass of \<open>float\<close>), NaN or not, with the text \<open>str()\<close> gives
  for it. \<open>PyOther na t\<close> is any further object, known by what the formatters can
  observe of it: the outcome \<open>na\<close> of the test \<open>if pd.isna(x)\<close>, and the text \<open>t\<close> of
  \<open>str(x)\<close>. So \<open>pd.NA\<close> is \<open>PyOther IsNA (lit ''<NA>'')\<close>; a list or an array of
  several elements is \<open>PyOther (Ambiguous m) t\<close>, for \<open>pd.isna\<close> maps it to an array,
  whose truth value raises \<open>ValueError(m)\<close>.
\<close>

datatype na_test = NotNA | IsNA | Ambiguous pystr

datatype pyobj = PyNone | PyNaT | PyBool bool | PyInt int | PyNpInt int | PyStr pystr
  | PyNpFloating bool pystr | PyOther na_test pystr

datatype pyval = PyFloat pyfloat | PyObj pyobj

text \<open>\<open>str(x)\<close>, also what \<open>f"{x}"\<close> prints\<close>

fun py_str :: "pyobj \<Rightarrow> pystr" where
  "py_str PyNone = lit ''None''"
| "py_str PyNaT = lit ''NaT''"
| "py_str (PyBool b) = (if b then lit ''True'' else lit ''False'')"
| "py_str (PyInt i) = show_int i"
| "py_str (PyNpInt i) = show_int i"
| "py_str (PyStr s) = s"
| "py_str (PyNpFloating nan t) = t"
| "py_str (PyOther na t) = t"

text \<open>The test \<open>if pd.isna(x)\<close> on an object that is no float\<close>

fun isna :: "pyobj \<Rightarrow> na_test" where
  "isna PyNone = IsNA"
| "isna PyNaT = IsNA"
| "isna (PyNpFloating nan t) = (if nan then IsNA else NotNA)"
| "isna (PyOther na t) = na"
| "isna _ = NotNA"

text \<open>The faults the tools can raise themselves.\<close>

datatype py_error = ValueError pystr

text \<open>
  \<open>float(i)\<close> as numpy converts an \<open>int64\<close>: exact below 2^53, otherwise rounded to
  53 significant bits, ties to even.
\<close>

function bit_length :: "nat \<Rightarrow> nat" where
  "bit_length n = (if n = 0 then 0 else Suc (bit_length (n div 2)))"
  by pat_completeness auto
termination
  by (relation "measure id") auto

declare bit_length.simps [simp del]

definition float_of_int :: "int \<Rightarrow> pyfloat" where
  "float_of_int i =
     (let m = nat \<bar>i\<bar>; k = bit_length m - 53
      in if k = 0 then Finite (i < 0) m 0
         else let q = m div 2 ^ k; r = m mod 2 ^ k; half = 2 ^ (k - 1)
              in Finite (i < 0) (if half < r \<or> (r = half \<and> odd q) then q + 1 else q) (int k))"

section \<open>DataFrames and Series\<close>

text \<open>
  A DataFrame is its column labels and its rows, each row an index label and one cell
  per column. Column labels are strings, as \<open>read_csv\<close> makes them and as
  \<open>format_dataframe_output\<close> uses them (\<open>col.lower()\<close>); a label may be repeated. A
  cell carries the dtype of its column with its value: a float64, an int64, a bool, a
  datetime64 (\<open>None\<close> is \<open>NaT\<close>) or an object. An index label is an \<open>int\<close> or
  something else, known by its text.
\<close>

datatype label = LInt int | LOther pystr

datatype cell = Float64 pyfloat | Int64 int | Boolean bool | Datetime64 "timestamp option"
  | Object pyval

datatype dtype = dt_float64 | dt_int64 | dt_bool | dt_datetime64 | dt_object

record dataframe =
  columns :: "pystr list"
  rows :: "(label \<times> cell list) list"

datatype series = Series (items: "(label \<times> pyval) list")

fun dtype_of :: "cell \<Rightarrow> dtype" where
  "dtype_of (Float64 _) = dt_float64"
| "dtype_of (Int64 _) = dt_int64"
| "dtype_of (Boolean _) = dt_bool"
| "dtype_of (Datetime64 _) = dt_datetime64"
| "dtype_of (Object _) = dt_object"

text \<open>
  \<open>df.iterrows()\<close> yields each row as a Series of one dtype, the common dtype of the
  columns: their own when they all agree, float64 when they are int64 and float64, object
  otherwise. So an int64 cell beside float64 cells only comes out as a float, and in any
  other row as an integer.
\<close>

definition common_dtype :: "cell list \<Rightarrow> dtype" where
  "common_dtype cs =
     (case remdups (map dtype_of cs) of
        [d] \<Rightarrow> d
      | ds \<Rightarrow> if set ds \<subseteq> {dt_int64, dt_float64} \<and> ds \<noteq> [] then dt_float64 else dt_object)"

text \<open>\<open>df.head(n)\<close>: the first \<open>n\<close> rows, and for a negative \<open>n\<close> all rows but the last \<open>-n\<close>.\<close>

definition head :: "int \<Rightarrow> 'a list \<Rightarrow> 'a list" where
  "head n xs = (if 0 \<le> n then take (nat n) xs else take (length xs - nat (- n)) xs)"


section \<open>Output Formatter\<close>

definition chart :: pystr where "chart = [128202]"
definition clipboard :: pystr where "clipboard = [128203]"
definition triangle :: pystr where "triangle = [9656]"
definition bullet :: pystr where "bullet = [8226]"
definition ellipsis :: pystr where "ellipsis = [8943]"
definition warning_sign :: pystr where "warning_sign = [9888, 65039]"
definition cross_mark :: pystr where "cross_mark = [10060]"

text \<open>\<open>"\<dots>" * n\<close> for the box-drawing dash U+2500\<close>

definition rule :: "nat \<Rightarrow> pystr" where
  "rule n = replicate n 9472"

definition nl :: pystr where "nl = [10]"

subsection \<open>\<open>format_dataframe_output\<close> (tools.py, lines 76 to 123)\<close>

text \<open>
  The function as it acts on a DataFrame, which is what the executor passes (line 303).
  Lines 87 to 91 come before: they turn a Series argument into a one-column frame and
  return \<open>str(df)\<close> for any other argument.
\<close>

definition money_column :: "unicode_db \<Rightarrow> pystr \<Rightarrow> bool" where
  "money_column U col \<longleftrightarrow>
     sublist (lit ''amount'') (lower U col) \<or> sublist (lit ''price'') (lower U col) \<or>
     sublist (lit ''revenue'') (lower U col)"

text \<open>
  \<open>output += f(x)\<close> for each \<open>x\<close> of a list in turn; a fault ends the loop and the
  call.
\<close>

fun append_each :: "('a \<Rightarrow> py_error + pystr) \<Rightarrow> pystr \<Rightarrow> 'a list \<Rightarrow> py_error + pystr" where
  "append_each f output [] = Inr output"
| "append_each f output (x # xs) =
     (case f x of Inl e \<Rightarrow> Inl e | Inr s \<Rightarrow> append_each f (output @ s) xs)"

text \<open>
  Lines 110 to 115, for a value of a column that is not datetime-typed. The condition of
  line 114 is the truth value of \<open>pd.isna(value)\<close>, which raises when that is an array.
\<close>

fun render_value :: "unicode_db \<Rightarrow> pystr \<Rightarrow> pyval \<Rightarrow> py_error + pystr" where
  "render_value U col (PyFloat f) =
     Inr (if money_column U col then lit ''$'' @ fmt_comma_2f f else fmt_2f f)"
| "render_value U col (PyObj x) =
     (case isna x of
        IsNA \<Rightarrow> Inr (lit ''N/A'')
      | NotNA \<Rightarrow> Inr (py_str x)
      | Ambiguous m \<Rightarrow> Inl (ValueError m))"

text \<open>
  Lines 106 to 115: the text of one cell under a label that occurs once, \<open>dt\<close> being the
  dtype of the row that \<open>iterrows\<close> yields. A cell of a datetime column is a Timestamp or
  NaT.
\<close>

fun render_cell :: "unicode_db \<Rightarrow> dtype \<Rightarrow> pystr \<Rightarrow> cell \<Rightarrow> py_error + pystr" where
  "render_cell U dt col (Datetime64 t) =
     Inr (case t of Some ts \<Rightarrow> strftime_ymd ts | None \<Rightarrow> lit ''N/A'')"
| "render_cell U dt col (Float64 f) = render_value U col (PyFloat f)"
| "render_cell U dt col (Int64 i) =
     render_value U col
       (if dt = dt_float64 then PyFloat (float_of_int i)
        else if dt = dt_int64 then PyObj (PyNpInt i) else PyObj (PyInt i))"
| "render_cell U dt col (Boolean b) = render_value U col (PyObj (PyBool b))"
| "render_cell U dt col (Object v) = render_value U col v"

text \<open>
  Lines 105 to 117: what one turn of the loop over the columns appends. Under a label
  that the frame has more than once, \<open>row[col]\<close> is a Series of all the cells of that
  label and \<open>display_df[col]\<close> a DataFrame; neither of the tests of lines 108 and 111
  holds of them, and the truth value of \<open>pd.isna(value)\<close> at line 114 raises.
\<close>

definition series_ambiguous :: pystr where
  "series_ambiguous =
     lit ''The truth value of a Series is ambiguous. Use a.empty, a.bool(), a.item(), a.any() or a.all().''"

definition field_line ::
  "unicode_db \<Rightarrow> dtype \<Rightarrow> pystr list \<Rightarrow> pystr \<times> cell \<Rightarrow> py_error + pystr" where
  "field_line U dt cols = (\<lambda>(col, c).
     if 1 < count_list cols col then Inl (ValueError series_ambiguous)
     else case render_cell U dt col c of
            Inl e \<Rightarrow> Inl e
          | Inr v \<Rightarrow> Inr (lit ''  '' @ bullet @ lit '' '' @ col @ lit '': '' @ v @ nl))"

text \<open>Lines 104 to 118: what one turn of the loop over the rows appends.\<close>

definition record_block ::
  "unicode_db \<Rightarrow> pystr list \<Rightarrow> label \<times> cell list \<Rightarrow> py_error + pystr" where
  "record_block U cols = (\<lambda>(idx, cells).
     case append_each (field_line U (common_dtype cells) cols)
            (triangle @ lit '' Record '' @
             (case idx of LInt i \<Rightarrow> show_int (i + 1) | LOther t \<Rightarrow> t) @ lit '':'' @ nl)
            (zip cols cells) of
       Inl e \<Rightarrow> Inl e
     | Inr block \<Rightarrow> Inr (block @ nl))"

text \<open>The result is the report (\<open>Inr\<close>) or the fault that leaves the call (\<open>Inl\<close>).\<close>

definition format_dataframe_output ::
  "unicode_db \<Rightarrow> dataframe \<Rightarrow> int \<Rightarrow> py_error + pystr" where
  "format_dataframe_output U df max_rows =
     (let total_rows = int (length (rows df));
          display_df = head max_rows (rows df);
          output = chart @ lit '' Total Records: '' @ show_int total_rows @ nl;
          output = (if total_rows > max_rows
                    then output @ clipboard @ lit '' Showing first '' @ show_int max_rows @
                         lit '' rows'' @ nl
                    else output);
          output = output @ rule 70 @ nl @ nl
      in case append_each (record_block U (columns df)) output display_df of
           Inl e \<Rightarrow> Inl e
         | Inr output \<Rightarrow>
             Inr (if total_rows > max_rows
                  then output @ ellipsis @ lit '' and '' @ show_int (total_rows - max_rows) @
                       lit '' more records'' @ nl
                  else output))"

subsection \<open>\<open>format_series_output\<close> (lines 125 to 148)\<close>

definition series_line :: "unicode_db \<Rightarrow> pystr \<Rightarrow> label \<times> pyval \<Rightarrow> pystr" where
  "series_line U name = (\<lambda>(idx, v).
     triangle @ lit '' '' @ (case idx of LInt i \<Rightarrow> show_int i | LOther t \<Rightarrow> t) @ lit '': '' @
     (case v of
        PyFloat f \<Rightarrow>
          if sublist (lit ''amount'') (lower U name) \<or> sublist (lit ''revenue'') (lower U name)
          then lit ''$'' @ fmt_comma_2f f else fmt_comma_2f f
      | PyObj x \<Rightarrow> py_str x) @ nl)"

definition format_series_output :: "unicode_db \<Rightarrow> series \<Rightarrow> pystr \<Rightarrow> pystr" where
  "format_series_output U s name =
     (let output = chart @ lit '' Analysis Results ('' @ show_nat (length (items s)) @
                   lit '' items)'' @ nl;
          output = output @ rule 70 @ nl @ nl
      in foldl (\<lambda>out e. out @ series_line U name e) output (items s))"

subsection \<open>\<open>format_scalar_output\<close> (lines 150 to 173)\<close>

text \<open>
  \<open>isinstance(value, (int, float))\<close> holds of a float, an \<open>int\<close> and a \<open>bool\<close> (a
  subclass of \<open>int\<close>, printed by \<open>{:,}\<close> as 0 or 1), and of nothing else: a numpy
  scalar that is no \<open>float64\<close> is printed as its text.
\<close>

fun scalar_text :: "pyval \<Rightarrow> pystr" where
  "scalar_text (PyFloat f) = lit ''$'' @ fmt_comma_2f f"
| "scalar_text (PyObj (PyInt i)) = fmt_comma_int i"
| "scalar_text (PyObj (PyBool b)) = fmt_comma_int (if b then 1 else 0)"
| "scalar_text (PyObj x) = py_str x"

definition format_scalar_output :: "pyval \<Rightarrow> pystr \<Rightarrow> pystr" where
  "format_scalar_output v description =
     chart @ lit '' '' @ description @ nl @ rule 70 @ nl @ nl @
     triangle @ lit '' '' @ scalar_text v @ nl"

section \<open>The four tables\<close>

text \<open>
  \<open>load_data\<close> reads four CSV files into DataFrames with the columns below. A text
  column is an object column: a cell is a string, or NaN where the file has none
  (\<open>None\<close> here; it prints as \<open>nan\<close>). \<open>price\<close> and \<open>amount\<close> are floats, and the
  three date columns are parsed by \<open>pd.to_datetime\<close>, which leaves \<open>NaT\<close> for an
  empty cell. \<open>load_data\<close> returns the tables, or the text of a load error: its result
  is an input of every tool, \<open>Inl\<close> the error text.
\<close>

type_synonym textcell = "pystr option"

definition text_str :: "textcell \<Rightarrow> pystr" where
  "text_str t = (case t of None \<Rightarrow> lit ''nan'' | Some s \<Rightarrow> s)"

record customer_row =
  c_customer_id :: textcell
  c_name :: textcell
  c_email :: textcell
  c_region :: textcell

record product_row =
  p_product_id :: textcell
  p_name :: textcell
  p_category :: textcell
  p_price :: pyfloat
  p_stock_level :: int

record order_row =
  order_id :: textcell
  customer_id :: textcell
  product_id :: textcell
  status :: textcell
  order_date :: "timestamp option"
  est_delivery :: "timestamp option"

record revenue_row =
  revenue_id :: textcell
  r_order_id :: textcell
  amount :: pyfloat
  date :: "timestamp option"
  payment_method :: textcell

record tables =
  customers_df :: "customer_row list"
  orders_df :: "order_row list"
  products_df :: "product_row list"
  revenue_df :: "revenue_row list"

type_synonym load_result = "pystr + tables"

text \<open>\<open>NaT.strftime(...)\<close> raises; a Timestamp prints its date.\<close>

definition strftime :: "timestamp option \<Rightarrow> py_error + pystr" where
  "strftime t =
     (case t of None \<Rightarrow> Inl (ValueError (lit ''NaTType does not support strftime''))
      | Some ts \<Rightarrow> Inr (strftime_ymd ts))"

section \<open>Customer Order Lookup: \<open>get_customer_orders\<close> (lines 177 to 245)\<close>

text \<open>
  \<open>left.merge(right, on=key, how='left')\<close>: every left row in order, once with each
  right row of the same key in the right table's order, or once with no right row.
\<close>

definition left_join :: "('a \<Rightarrow> textcell) \<Rightarrow> ('b \<Rightarrow> textcell) \<Rightarrow> 'a list \<Rightarrow> 'b list \<Rightarrow> ('a \<times> 'b option) list"
  where
  "left_join kl kr ls rs =
     concat (map (\<lambda>l. let ms = filter (\<lambda>r. kr r = kl l) rs
                       in if ms = [] then [(l, None)] else map (\<lambda>r. (l, Some r)) ms) ls)"

definition delayed_marker :: pystr where
  "delayed_marker = lit ''  '' @ warning_sign @ lit '' DELAYED''"

text \<open>
  Lines 226 to 243: the strings one turn of the loop appends to \<open>result\<close>, in order.
  A joined row with no product has NaN for name, category and price. The loop reads
  \<open>datetime.now()\<close> anew at lines 237 and 238; \<open>now\<close> is one reading for the whole
  call, the clock taken not to move while it runs.
\<close>

definition order_parts :: "timestamp \<Rightarrow> order_row \<times> product_row option \<Rightarrow> py_error + pystr list" where
  "order_parts now = (\<lambda>(row, prod).
     case strftime (order_date row) of
       Inl e \<Rightarrow> Inl e
     | Inr od \<Rightarrow>
         Inr ([nl @ triangle @ lit '' Order ID: '' @ text_str (order_id row) @ nl,
               lit ''  Product: '' @ text_str (case prod of None \<Rightarrow> None | Some p \<Rightarrow> p_name p) @
                 lit '' ('' @ text_str (case prod of None \<Rightarrow> None | Some p \<Rightarrow> p_category p) @
                 lit '')'' @ nl,
               lit ''  Price: $'' @ fmt_2f (case prod of None \<Rightarrow> NaN | Some p \<Rightarrow> p_price p) @ nl,
               lit ''  Status: '' @ text_str (status row) @ nl,
               lit ''  Order Date: '' @ od @ nl] @
              (case est_delivery row of
                 Some est \<Rightarrow>
                   [lit ''  Est. Delivery: '' @ strftime_ymd est @ nl] @
                   (if status row \<noteq> Some (lit ''Delivered'') \<and> ns now > ns est
                    then [delayed_marker @ lit '': '' @
                          show_int ((ns now - ns est) div ns_per_day) @
                          lit '' day(s) overdue'' @ nl]
                    else [])
               | None \<Rightarrow> [lit ''  Est. Delivery: N/A'' @ nl]) @
              [rule 50 @ nl]))"

text \<open>The loop of line 225: a fault in one row ends the call.\<close>

fun render_orders :: "timestamp \<Rightarrow> pystr \<Rightarrow> (order_row \<times> product_row option) list \<Rightarrow> py_error + pystr"
  where
  "render_orders now result [] = Inr result"
| "render_orders now result (r # rs) =
     (case order_parts now r of
        Inl e \<Rightarrow> Inl e
      | Inr parts \<Rightarrow> render_orders now (result @ concat parts) rs)"

definition customer_header :: "customer_row \<Rightarrow> pystr \<Rightarrow> nat \<Rightarrow> pystr" where
  "customer_header c clean_id n =
     [128100] @ lit '' Customer: '' @ text_str (c_name c) @ lit '' (ID: '' @ clean_id @ lit '')'' @ nl @
     [128231] @ lit '' Email: '' @ text_str (c_email c) @ nl @
     [128205] @ lit '' Region: '' @ text_str (c_region c) @ nl @
     [128230] @ lit '' Total Orders: '' @ show_nat n @ nl @ nl @
     rule 50 @ nl"

definition customer_orders_of :: "tables \<Rightarrow> pystr \<Rightarrow> (order_row \<times> product_row option) list" where
  "customer_orders_of t clean_id =
     left_join product_id p_product_id
       (filter (\<lambda>row. customer_id row = Some clean_id) (orders_df t)) (products_df t)"

definition get_customer_orders ::
  "unicode_db \<Rightarrow> timestamp \<Rightarrow> load_result \<Rightarrow> pystr \<Rightarrow> py_error + pystr" where
  "get_customer_orders U now data cid =
     (case data of
        Inl err \<Rightarrow> Inr err
      | Inr t \<Rightarrow>
          let clean_id = upper U (strip cid);
              customer = filter (\<lambda>c. c_customer_id c = Some clean_id) (customers_df t)
          in case customer of
               [] \<Rightarrow> Inr (lit ''ERROR: Customer ID '' @ [39] @ clean_id @ [39] @
                          lit '' not found in the system.'')
             | c # _ \<Rightarrow>
                 let customer_orders = customer_orders_of t clean_id
                 in if customer_orders = []
                    then Inr (lit ''Hello '' @ text_str (c_name c) @
                              lit ''! You currently have no orders in the system.'')
                    else render_orders now
                           (customer_header c clean_id (length customer_orders))
                           customer_orders)"

section \<open>Ad hoc Query Executor: \<open>execute_pandas_code_business\<close> (lines 250 to 323)\<close>

text \<open>
  The objects a snippet can leave in its scope: a DataFrame, a Series, a scalar, or a
  module or function (known by its name). The scope \<open>local_env\<close> is a dictionary from
  names to objects.
\<close>

datatype pyobject = Frame dataframe | SeriesObj series | Scalar pyval | Builtin pystr

type_synonym env = "pystr \<rightharpoonup> pyobject"

text \<open>
  A raised exception: whether it is an instance of \<open>Exception\<close> (\<open>SystemExit\<close>,
  \<open>KeyboardInterrupt\<close> and \<open>GeneratorExit\<close> derive from \<open>BaseException\<close> only),
  the text \<open>str(e)\<close>, and the text \<open>traceback.format_exc()\<close> gives for it.
\<close>

record py_exception =
  is_Exception :: bool
  str_e :: pystr
  format_exc :: pystr

text \<open>
  \<open>exec(python_code, {}, local_env)\<close> is the Python interpreter, no part of the
  repository: a parameter, which for a snippet and a scope gives the exception the
  snippet raises or the scope it leaves.
\<close>

type_synonym interpreter = "pystr \<Rightarrow> env \<Rightarrow> py_exception + env"

text \<open>
  A fault of \<open>format_dataframe_output\<close> is raised inside the \<open>try\<close> of line 291 and
  caught at line 315 like a fault of the snippet. The text \<open>traceback.format_exc()\<close>
  gives for it is the interpreter's as well: the second parameter of the executor.
\<close>

type_synonym traceback = "py_error \<Rightarrow> pystr"

definition caught :: "traceback \<Rightarrow> py_error \<Rightarrow> py_exception" where
  "caught tb e =
     \<lparr>is_Exception = True, str_e = (case e of ValueError m \<Rightarrow> m), format_exc = tb e\<rparr>"

text \<open>The four tables as the DataFrames \<open>read_csv\<close> builds, with a \<open>RangeIndex\<close>.\<close>

definition text_cell :: "textcell \<Rightarrow> cell" where
  "text_cell t = Object (case t of None \<Rightarrow> PyFloat NaN | Some s \<Rightarrow> PyObj (PyStr s))"

definition range_index :: "'a list \<Rightarrow> (label \<times> 'a) list" where
  "range_index xs = zip (map (\<lambda>i. LInt (int i)) [0..<length xs]) xs"

definition customers_frame :: "customer_row list \<Rightarrow> dataframe" where
  "customers_frame cs =
     \<lparr>columns = [lit ''customer_id'', lit ''name'', lit ''email'', lit ''region''],
      rows = range_index (map (\<lambda>c. [text_cell (c_customer_id c), text_cell (c_name c),
                                      text_cell (c_email c), text_cell (c_region c)]) cs)\<rparr>"

definition orders_frame :: "order_row list \<Rightarrow> dataframe" where
  "orders_frame os =
     \<lparr>columns = [lit ''order_id'', lit ''customer_id'', lit ''product_id'', lit ''status'',
                 lit ''order_date'', lit ''est_delivery''],
      rows = range_index (map (\<lambda>r. [text_cell (order_id r), text_cell (customer_id r),
                                      text_cell (product_id r), text_cell (status r),
                                      Datetime64 (order_date r), Datetime64 (est_delivery r)]) os)\<rparr>"

definition products_frame :: "product_row list \<Rightarrow> dataframe" where
  "products_frame ps =
     \<lparr>columns = [lit ''product_id'', lit ''name'', lit ''category'', lit ''price'',
                 lit ''stock_level''],
      rows = range_index (map (\<lambda>p. [text_cell (p_product_id p), text_cell (p_name p),
                                      text_cell (p_category p), Float64 (p_price p),
                                      Int64 (p_stock_level p)]) ps)\<rparr>"

definition revenue_frame :: "revenue_row list \<Rightarrow> dataframe" where
  "revenue_frame rs =
     \<lparr>columns = [lit ''revenue_id'', lit ''order_id'', lit ''amount'', lit ''date'',
                 lit ''payment_method''],
      rows = range_index (map (\<lambda>r. [text_cell (revenue_id r), text_cell (r_order_id r),
                                      Float64 (amount r), Datetime64 (date r),
                                      text_cell (payment_method r)]) rs)\<rparr>"

text \<open>Lines 284 to 289: the scope handed to the snippet.\<close>

definition local_env :: "tables \<Rightarrow> env" where
  "local_env t =
     [lit ''customers_df'' \<mapsto> Frame (customers_frame (customers_df t)),
      lit ''orders_df'' \<mapsto> Frame (orders_frame (orders_df t)),
      lit ''products_df'' \<mapsto> Frame (products_frame (products_df t)),
      lit ''revenue_df'' \<mapsto> Frame (revenue_frame (revenue_df t)),
      lit ''pd'' \<mapsto> Builtin (lit ''pd''),
      lit ''datetime'' \<mapsto> Builtin (lit ''datetime''),
      lit ''format_dataframe_output'' \<mapsto> Builtin (lit ''format_dataframe_output''),
      lit ''format_series_output'' \<mapsto> Builtin (lit ''format_series_output''),
      lit ''format_scalar_output'' \<mapsto> Builtin (lit ''format_scalar_output'')]"

definition no_result_error :: pystr where
  "no_result_error =
     cross_mark @ lit '' Error: The code ran, but no variable named '' @ [39] @ lit ''result'' @
     [39] @ lit '' was defined. Please assign the final answer to '' @ [39] @ lit ''result'' @
     [39] @ lit ''.''"

definition none_warning :: pystr where
  "none_warning =
     warning_sign @ lit '' Warning: The calculation returned None. Please check your code logic.''"

definition common_issues :: pystr where
  "common_issues =
     lit ''Common issues:'' @ nl @
     lit ''- Check column names match the schema exactly (case-sensitive)'' @ nl @
     lit ''- Ensure you'' @ [39] @ lit ''re using correct merge keys (customer_id, product_id, order_id)'' @ nl @
     lit ''- Use suffixes when joining tables with duplicate column names (e.g., '' @ [39] @
       lit ''name'' @ [39] @ lit '' in customers and products)'' @ nl @
     lit ''- Verify dataframe names: customers_df, orders_df, products_df, revenue_df''"

text \<open>Lines 316 to 323\<close>

definition error_msg :: "py_exception \<Rightarrow> pystr" where
  "error_msg e =
     lit ''Python Execution Error: '' @ str_e e @ nl @
     lit ''Traceback: '' @ format_exc e @ nl @ nl @ common_issues"

text \<open>
  Lines 296 to 311. \<open>isinstance(result_value, (int, float, np.integer, np.floating))\<close>
  holds of a float, an \<open>int\<close>, a \<open>bool\<close>, a \<open>numpy.integer\<close> and a
  \<open>numpy.floating\<close>. The result is the string to return, or the fault of the formatter.
\<close>

fun dispatch :: "unicode_db \<Rightarrow> pyobject \<Rightarrow> py_error + pystr" where
  "dispatch U (Scalar (PyObj PyNone)) = Inr none_warning"
| "dispatch U (Frame df) = format_dataframe_output U df 10"
| "dispatch U (SeriesObj s) = Inr (format_series_output U s (lit ''Value''))"
| "dispatch U (Scalar (PyFloat f)) = Inr (format_scalar_output (PyFloat f) (lit ''Result''))"
| "dispatch U (Scalar (PyObj (PyInt i))) =
     Inr (format_scalar_output (PyObj (PyInt i)) (lit ''Result''))"
| "dispatch U (Scalar (PyObj (PyBool b))) =
     Inr (format_scalar_output (PyObj (PyBool b)) (lit ''Result''))"
| "dispatch U (Scalar (PyObj (PyNpInt i))) =
     Inr (format_scalar_output (PyObj (PyNpInt i)) (lit ''Result''))"
| "dispatch U (Scalar (PyObj (PyNpFloating nan t))) =
     Inr (format_scalar_output (PyObj (PyNpFloating nan t)) (lit ''Result''))"
| "dispatch U (Scalar (PyObj x)) = Inr (py_str x)"
| "dispatch U (Builtin t) = Inr t"

text \<open>
  The result is the string returned (\<open>Inr\<close>) or the exception that leaves the call
  (\<open>Inl\<close>): \<open>except Exception\<close> catches the instances of \<open>Exception\<close> and no other.
\<close>

definition execute_pandas_code_business ::
  "interpreter \<Rightarrow> traceback \<Rightarrow> unicode_db \<Rightarrow> load_result \<Rightarrow> pystr \<Rightarrow> py_exception + pystr"
  where
  "execute_pandas_code_business exec tb U data_map python_code =
     (case data_map of
        Inl err \<Rightarrow> Inr err
      | Inr t \<Rightarrow>
          (case exec python_code (local_env t) of
             Inl e \<Rightarrow> if is_Exception e then Inr (error_msg e) else Inl e
           | Inr env' \<Rightarrow>
               (case env' (lit ''result'') of
                  Some result_value \<Rightarrow>
                    (case dispatch U result_value of
                       Inr report \<Rightarrow> Inr report
                     | Inl e \<Rightarrow> Inr (error_msg (caught tb e)))
                | None \<Rightarrow> Inr no_result_error)))"

section \<open>Audit Checks\<close>

subsection \<open>\<open>check_for_revenue_anomalies\<close> (lines 328 to 351)\<close>

text \<open>
  \<open>IsolationForest(contamination=0.1, random_state=42)\<close>, fitted on the amounts and
  asked to predict them, is scikit-learn's: a parameter that gives one prediction (1 or
  -1) per amount, or the fault it raises.
\<close>

type_synonym forest = "pyfloat list \<Rightarrow> py_error + int list"

definition check_for_revenue_anomalies :: "forest \<Rightarrow> load_result \<Rightarrow> py_error + pystr" where
  "check_for_revenue_anomalies predict data =
     (case data of
        Inl err \<Rightarrow> Inr err
      | Inr t \<Rightarrow>
          if length (revenue_df t) < 5
          then Inr (lit ''Not enough data points to run anomaly detection.'')
          else (case predict (map amount (revenue_df t)) of
                  Inl e \<Rightarrow> Inl e
                | Inr anomaly \<Rightarrow>
                    let anomalies = map fst (filter (\<lambda>(r, a). a = - 1) (zip (revenue_df t) anomaly))
                    in if anomalies \<noteq> []
                       then (let latest_anomaly = last anomalies
                             in case strftime (date latest_anomaly) of
                                  Inl e \<Rightarrow> Inl e
                                | Inr d \<Rightarrow>
                                    Inr (lit ''CRITICAL REVENUE ANOMALY: Unusual pattern on '' @ d @
                                         lit '' - Amount: $'' @ fmt_comma_2f (amount latest_anomaly) @
                                         lit '' (Order: '' @ text_str (r_order_id latest_anomaly) @
                                         lit '').''))
                       else Inr (lit ''SUCCESS: No significant revenue anomalies detected.'')))"

subsection \<open>\<open>check_for_critical_delays\<close> (lines 354 to 389)\<close>

text \<open>
  \<open>pd.to_datetime(datetime.now().strftime('%Y-%m-%d'))\<close>: the midnight that begins
  the current day.
\<close>

definition midnight :: "timestamp \<Rightarrow> timestamp" where
  "midnight now = Timestamp (ns now - ns now mod ns_per_day)"

text \<open>Lines 368 to 373: the mask. A comparison with \<open>NaT\<close> is false.\<close>

definition critically_delayed :: "timestamp \<Rightarrow> order_row \<Rightarrow> bool" where
  "critically_delayed today row \<longleftrightarrow>
     (case est_delivery row of None \<Rightarrow> False | Some est \<Rightarrow> ns est < ns today) \<and>
     status row \<noteq> Some (lit ''Delivered'') \<and>
     status row \<noteq> Some (lit ''Cancelled'') \<and>
     est_delivery row \<noteq> None"

definition check_for_critical_delays :: "timestamp \<Rightarrow> load_result \<Rightarrow> pystr" where
  "check_for_critical_delays now data =
     (case data of
        Inl err \<Rightarrow> err
      | Inr t \<Rightarrow>
          let today = midnight now;
              critically_delayed_orders = filter (critically_delayed today) (orders_df t)
          in if critically_delayed_orders \<noteq> []
             then (let count = length critically_delayed_orders;
                       delayed_with_customers =
                         left_join customer_id c_customer_id critically_delayed_orders (customers_df t);
                       order_list = map text_str (take 3 (map order_id critically_delayed_orders));
                       customer_names =
                         map text_str
                           (take 3 (map (\<lambda>(row, c). case c of None \<Rightarrow> None | Some c \<Rightarrow> c_name c)
                                      delayed_with_customers))
                   in lit ''ALERT: '' @ show_nat count @ lit '' orders are critically delayed!'' @ nl @
                      lit ''Affected Orders: '' @ join (lit '', '') order_list @ nl @
                      lit ''Affected Customers: '' @ join (lit '', '') customer_names)
             else lit ''SUCCESS: No critical delivery delays found.'')"

section \<open>Example data\<close>

text \<open>
  Concrete tables, frames and interpreter behaviours at which the theorems below are
  evaluated. The clock stands at noon of 2024-01-18; 600.5 is \<open>Finite False 1201 (- 1)\<close>.
\<close>

definition no_tables :: tables where
  "no_tables = \<lparr>customers_df = [], orders_df = [], products_df = [], revenue_df = []\<rparr>"



definition no_traceback :: traceback where
  "no_traceback e = lit ''Traceback (most recent call last): ...''"

definition binding_interpreter :: "pystr \<Rightarrow> pyobject \<Rightarrow> interpreter" where
  "binding_interpreter name v code scope = Inr (scope(name \<mapsto> v))"


definition repeated_label :: dataframe where
  "repeated_label =
     \<lparr>columns = [lit ''name'', lit ''name''],
      rows = [(LInt 0, [Object (PyObj (PyStr (lit ''Ann''))),
                        Object (PyObj (PyStr (lit ''Lamp'')))])]\<rparr>"

definition list_cell :: dataframe where
  "list_cell =
     \<lparr>columns = [lit ''tags''],
      rows = [(LInt 0,
               [Object (PyObj (PyOther
                  (Ambiguous (lit ''The truth value of an array with more than one element is ambiguous. Use a.any() or a.all()''))
                  (lit ''[1, 2]'')))])]\<rparr>"


definition ann :: customer_row where
  "ann = \<lparr>c_customer_id = Some (lit ''CUST_001''), c_name = Some (lit ''Ann''),
          c_email = Some (lit ''ann@example.com''), c_region = Some (lit ''North'')\<rparr>"

definition lamp :: product_row where
  "lamp = \<lparr>p_product_id = Some (lit ''P1''), p_name = Some (lit ''Lamp''),
           p_category = Some (lit ''Home''), p_price = Finite False 39 (- 1), p_stock_level = 4\<rparr>"

definition delivered_order :: order_row where
  "delivered_order =
     \<lparr>order_id = Some (lit ''O1''), customer_id = Some (lit ''CUST_001''),
      product_id = Some (lit ''P1''), status = Some (lit ''Delivered''),
      order_date = Some (Timestamp (19723 * ns_per_day)),
      est_delivery = Some (Timestamp (19730 * ns_per_day))\<rparr>"

definition shipped_order :: order_row where
  "shipped_order =
     \<lparr>order_id = Some (lit ''O2''), customer_id = Some (lit ''CUST_001''),
      product_id = Some (lit ''P1''), status = Some (lit ''Shipped''),
      order_date = Some (Timestamp (19725 * ns_per_day)),
      est_delivery = Some (Timestamp (19735 * ns_per_day))\<rparr>"

definition shop :: tables where
  "shop = \<lparr>customers_df = [ann], orders_df = [delivered_order, shipped_order],
           products_df = [lamp], revenue_df = []\<rparr>"


definition a_clock :: timestamp where
  "a_clock = Timestamp (19740 * ns_per_day + 43200000000000)"

definition three_revenues :: tables where
  "three_revenues =
     \<lparr>customers_df = [], orders_df = [], products_df = [],
      revenue_df =
        [\<lparr>revenue_id = Some (lit ''R1''), r_order_id = Some (lit ''O1''),
          amount = Finite False 100 0, date = Some (Timestamp (19723 * ns_per_day)),
          payment_method = Some (lit ''card'')\<rparr>,
         \<lparr>revenue_id = Some (lit ''R2''), r_order_id = Some (lit ''O2''),
          amount = Finite False 200 0, date = Some (Timestamp (19725 * ns_per_day)),
          payment_method = Some (lit ''card'')\<rparr>,
         \<lparr>revenue_id = Some (lit ''R3''), r_order_id = Some (lit ''O3''),
          amount = Finite False 601 (- 1), date = Some (Timestamp (19730 * ns_per_day)),
          payment_method = Some (lit ''cash'')\<rparr>]\<rparr>"

definition sum_snippet :: pystr where
  "sum_snippet = lit ''result = revenue_df['' @ [39] @ lit ''amount'' @ [39] @ lit ''].sum()''"

definition calm_forest :: forest where
  "calm_forest xs = Inr (map (\<lambda>x. 1) xs)"

definition by_region :: series where
  "by_region = Series [(LOther (lit ''North''), PyFloat (Finite False 1201 (- 1))),
                       (LOther (lit ''South''), PyFloat (Finite False 5 8))]"

section \<open>Auxiliary facts\<close>

lemmas str_eval = strip_def isspace_def upper_def lower_def isascii_def ascii_upper_def
  ascii_lower_def ascii_db_def lit_def



lemma foldl_append_concat:
  "foldl (\<lambda>out r. out @ f r) acc xs = acc @ concat (map f xs)"
  by (induction xs arbitrary: acc) simp_all






lemma show_nat_digits: "c \<in> set (show_nat n) \<Longrightarrow> 48 \<le> c \<and> c \<le> 57"
proof (induction n rule: show_nat.induct)
  case (1 n)
  show ?case
  proof (cases "n < 10")
    case True
    with "1.prems" show ?thesis
      by (subst (asm) show_nat.simps) (simp add: digit_def)
  next
    case False
    have "n mod 10 < 10" by simp
    with False "1.prems" "1.IH" show ?thesis
      by (subst (asm) show_nat.simps) (auto simp: digit_def)
  qed
qed

lemma group3_set: "set (group3 ds) \<subseteq> set ds \<union> {44}"
proof (induction ds rule: group3.induct)
  case (1 ds)
  show ?case
  proof (cases "length ds \<le> 3")
    case True
    then show ?thesis by (subst group3.simps) auto
  next
    case False
    have "set (take (length ds - 3) ds) \<subseteq> set ds" "set (drop (length ds - 3) ds) \<subseteq> set ds"
      by (rule set_take_subset, rule set_drop_subset)
    with False "1.IH" show ?thesis
      by (subst group3.simps) (auto simp: lit_def)
  qed
qed

lemma dollar_free_digits: "36 \<notin> set (group3 (show_nat n))"
  using group3_set [of "show_nat n"] show_nat_digits [of 36 n] by auto

lemma fmt_comma_2f_no_dollar: "36 \<notin> set (fmt_comma_2f f)"
proof (cases f)
  case (Finite s m e)
  then show ?thesis
    using dollar_free_digits [of "hundredths m e div 100"]
    by (simp add: Let_def lit_def two_digits_def digit_def)
qed (simp_all add: lit_def)

lemma fmt_comma_int_no_dollar: "36 \<notin> set (fmt_comma_int i)"
  using dollar_free_digits [of "nat i"] dollar_free_digits [of "nat (- i)"]
  by (simp add: fmt_comma_int_def lit_def)

lemma lower_Value: "lower U (lit ''Value'') = lit ''value''"
  by (simp add: lower_def isascii_def lit_def ascii_lower_def)

lemma not_money_Value:
  "\<not> sublist (lit ''amount'') (lit ''value'')" "\<not> sublist (lit ''revenue'') (lit ''value'')"
  by (simp_all add: lit_def sublist_Cons_right prefix_Cons)









lemma not_ALERT_in_success:
  "\<not> sublist (lit ''ALERT'') (lit ''SUCCESS: No critical delivery delays found.'')"
  by (simp add: lit_def sublist_Cons_right prefix_Cons)

lemma ALERT_prefix: "prefix (lit ''ALERT'') (lit ''ALERT: '' @ rest)"
  by (simp add: lit_def)

section \<open>The claims\<close>

subsection \<open>C1: a fault of the snippet is reported, not raised\<close>




subsection \<open>C2: a snippet that binds no \<open>result\<close>\<close>



subsection \<open>C3: one block per joined order row, and the delay flag\<close>




subsection \<open>C4: the number of record blocks, the header and the suffix\<close>


text \<open>
  Nor does it hold of every DataFrame: where a shown row has a repeated column label, or
  a cell that holds a list, the condition of line 114 raises, and the call returns no
  report at all.
\<close>

lemma repeated_label_raises:
  "format_dataframe_output ascii_db repeated_label 10 = Inl (ValueError series_ambiguous)"
  by (simp add: format_dataframe_output_def repeated_label_def head_def Let_def
      record_block_def field_line_def lit_def)

lemma list_cell_raises:
  "format_dataframe_output ascii_db list_cell 10 =
     Inl (ValueError (lit ''The truth value of an array with more than one element is ambiguous. Use a.any() or a.all()''))"
  by (simp add: format_dataframe_output_def list_cell_def head_def Let_def
      record_block_def field_line_def common_dtype_def)



subsection \<open>C5: how a cell is rendered\<close>




subsection \<open>C6: a scalar result\<close>

text \<open>
  C6, as stated, has every numeric scalar, integer or float, printed as a
  currency-formatted number. Line 168 prints an \<open>int\<close> with thousands separators only,
  with no currency sign and no decimals.
\<close>

theorem int_scalar_not_currency:
  "format_scalar_output (PyObj (PyInt 1234)) (lit ''Result'') =
     chart @ lit '' Result'' @ nl @ rule 70 @ nl @ nl @ triangle @ lit '' 1,234'' @ nl"
  by (simp add: format_scalar_output_def fmt_comma_int_def show_nat.simps group3.simps
      digit_def lit_def)

text \<open>
  C6, amended: \<open>format_scalar_output\<close> prints a float on one line as \<open>$\<close>, thousands
  separators and two decimals; an \<open>int\<close> on one line with thousands separators and no
  currency sign; and any value that is neither an \<open>int\<close> nor a float as its raw text. In
  particular, when the snippet \<open>result = revenue_df['amount'].sum()\<close> binds \<open>result\<close> to
  600.5, the sum of 100.0, 200.0 and 300.50, the executor returns the scalar report whose
  value line is \<open>$600.50\<close>.
\<close>

theorem scalar_rendering:
  "format_scalar_output (PyFloat f) d =
     chart @ lit '' '' @ d @ nl @ rule 70 @ nl @ nl @ triangle @ lit '' $'' @ fmt_comma_2f f @ nl \<and>
   format_scalar_output (PyObj (PyInt i)) d =
     chart @ lit '' '' @ d @ nl @ rule 70 @ nl @ nl @ triangle @ lit '' '' @ fmt_comma_int i @ nl \<and>
   36 \<notin> set (fmt_comma_int i) \<and>
   ((\<forall>j. x \<noteq> PyInt j) \<and> (\<forall>b. x \<noteq> PyBool b) \<longrightarrow>
      format_scalar_output (PyObj x) d =
        chart @ lit '' '' @ d @ nl @ rule 70 @ nl @ nl @ triangle @ lit '' '' @ py_str x @ nl) \<and>
   (exec python_code (local_env t) = Inr env' \<and>
    env' (lit ''result'') = Some (Scalar (PyFloat (Finite False 1201 (- 1)))) \<longrightarrow>
      execute_pandas_code_business exec tb U (Inr t) python_code =
        Inr (chart @ lit '' Result'' @ nl @ rule 70 @ nl @ nl @ triangle @ lit '' $600.50'' @ nl))"
proof -
  have "fmt_comma_2f (Finite False 1201 (- 1)) = lit ''600.50''"
    by (simp add: hundredths_def show_nat.simps group3.simps two_digits_def digit_def lit_def)
  moreover have "(\<forall>j. x \<noteq> PyInt j) \<and> (\<forall>b. x \<noteq> PyBool b) \<longrightarrow> scalar_text (PyObj x) = py_str x"
    by (cases x) auto
  ultimately show ?thesis
    by (simp add: format_scalar_output_def execute_pandas_code_business_def
        fmt_comma_int_no_dollar lit_def)
qed

theorem scalar_rendering_witness:
  "binding_interpreter (lit ''result'') (Scalar (PyFloat (Finite False 1201 (- 1)))) sum_snippet
     (local_env three_revenues) =
     Inr ((local_env three_revenues)(lit ''result'' \<mapsto> Scalar (PyFloat (Finite False 1201 (- 1))))) \<and>
   execute_pandas_code_business
     (binding_interpreter (lit ''result'') (Scalar (PyFloat (Finite False 1201 (- 1)))))
     no_traceback ascii_db (Inr three_revenues) sum_snippet =
     Inr (chart @ lit '' Result'' @ nl @ rule 70 @ nl @ nl @ triangle @ lit '' $600.50'' @ nl) \<and>
   format_scalar_output (PyObj (PyStr (lit ''none yet''))) (lit ''Result'') =
     chart @ lit '' Result'' @ nl @ rule 70 @ nl @ nl @ triangle @ lit '' none yet'' @ nl"
proof -
  have a: "binding_interpreter (lit ''result'') (Scalar (PyFloat (Finite False 1201 (- 1)))) sum_snippet
     (local_env three_revenues) =
     Inr ((local_env three_revenues)(lit ''result'' \<mapsto> Scalar (PyFloat (Finite False 1201 (- 1)))))"
    by (simp add: binding_interpreter_def)
  from a
    scalar_rendering [where x = "PyStr (lit ''none yet'')" and d = "lit ''Result''"
      and exec = "binding_interpreter (lit ''result'') (Scalar (PyFloat (Finite False 1201 (- 1))))"
      and python_code = sum_snippet and t = three_revenues and U = ascii_db
      and tb = no_traceback
      and env' = "(local_env three_revenues)(lit ''result'' \<mapsto> Scalar (PyFloat (Finite False 1201 (- 1))))"]
  show ?thesis
    by (simp add: lit_def)
qed

subsection \<open>C7: the critical delay check\<close>

text \<open>
  C7: with \<open>today\<close> the midnight that begins the current day, and the late orders those
  whose \<open>est_delivery\<close> is not null and strictly before \<open>today\<close> and whose status is
  neither \<open>Delivered\<close> nor \<open>Cancelled\<close>: when there is a late order,
  \<open>check_for_critical_delays\<close> returns the line that begins with \<open>ALERT\<close>, states the
  number of late orders, and lists the ids of the first three of them at most and the
  customer names of the first three rows at most of their join with the customers; when
  there is none it returns the SUCCESS line. The result begins with (and contains)
  \<open>ALERT\<close> if and only if some order is late.
\<close>

theorem critical_delays_alert:
  "(let today = ns now - ns now mod ns_per_day;
        late = filter (\<lambda>row. est_delivery row \<noteq> None \<and> ns (the (est_delivery row)) < today \<and>
                              status row \<noteq> Some (lit ''Delivered'') \<and>
                              status row \<noteq> Some (lit ''Cancelled'')) (orders_df t)
    in (late \<noteq> [] \<longrightarrow>
          check_for_critical_delays now (Inr t) =
            lit ''ALERT: '' @ show_nat (length late) @ lit '' orders are critically delayed!'' @ nl @
            lit ''Affected Orders: '' @
            join (lit '', '') (map (\<lambda>row. text_str (order_id row)) (take 3 late)) @ nl @
            lit ''Affected Customers: '' @
            join (lit '', '')
              (map (\<lambda>(row, c). text_str (case c of None \<Rightarrow> None | Some c \<Rightarrow> c_name c))
                 (take 3 (left_join customer_id c_customer_id late (customers_df t))))) \<and>
       (late = [] \<longrightarrow>
          check_for_critical_delays now (Inr t) = lit ''SUCCESS: No critical delivery delays found.'') \<and>
       (prefix (lit ''ALERT'') (check_for_critical_delays now (Inr t)) \<longleftrightarrow>
          (\<exists>row \<in> set (orders_df t).
             est_delivery row \<noteq> None \<and> ns (the (est_delivery row)) < today \<and>
             status row \<noteq> Some (lit ''Delivered'') \<and> status row \<noteq> Some (lit ''Cancelled''))) \<and>
       (sublist (lit ''ALERT'') (check_for_critical_delays now (Inr t)) \<longleftrightarrow> late \<noteq> []))"
proof -
  let ?today = "ns now - ns now mod ns_per_day"
  let ?P = "\<lambda>row. est_delivery row \<noteq> None \<and> ns (the (est_delivery row)) < ?today \<and>
                  status row \<noteq> Some (lit ''Delivered'') \<and> status row \<noteq> Some (lit ''Cancelled'')"
  let ?late = "filter ?P (orders_df t)"
  have P: "critically_delayed (midnight now) = ?P"
    by (rule ext) (auto simp: critically_delayed_def midnight_def split: option.splits)
  have L: "filter (critically_delayed (midnight now)) (orders_df t) = ?late"
    by (simp only: P)
  have alert: "?late \<noteq> [] \<Longrightarrow>
      check_for_critical_delays now (Inr t) =
            lit ''ALERT: '' @ show_nat (length ?late) @ lit '' orders are critically delayed!'' @ nl @
            lit ''Affected Orders: '' @
            join (lit '', '') (map (\<lambda>row. text_str (order_id row)) (take 3 ?late)) @ nl @
            lit ''Affected Customers: '' @
            join (lit '', '')
              (map (\<lambda>(row, c). text_str (case c of None \<Rightarrow> None | Some c \<Rightarrow> c_name c))
                 (take 3 (left_join customer_id c_customer_id ?late (customers_df t))))"
    unfolding check_for_critical_delays_def
    by (simp add: Let_def L take_map comp_def case_prod_unfold)
  have ok: "?late = [] \<Longrightarrow>
      check_for_critical_delays now (Inr t) = lit ''SUCCESS: No critical delivery delays found.''"
    unfolding check_for_critical_delays_def by (simp add: Let_def L)
  have ex: "(\<exists>row \<in> set (orders_df t). ?P row) \<longleftrightarrow> ?late \<noteq> []"
    by (auto simp: filter_empty_conv)
  have pre: "prefix (lit ''ALERT'') (check_for_critical_delays now (Inr t)) \<longleftrightarrow> ?late \<noteq> []"
  proof (cases "?late = []")
    case True
    with ok not_ALERT_in_success show ?thesis
      by (auto dest: prefix_imp_sublist)
  next
    case False
    with alert ALERT_prefix show ?thesis by simp
  qed
  have sub: "sublist (lit ''ALERT'') (check_for_critical_delays now (Inr t)) \<longleftrightarrow> ?late \<noteq> []"
  proof (cases "?late = []")
    case True
    with ok not_ALERT_in_success show ?thesis by simp
  next
    case False
    with pre show ?thesis by (auto dest: prefix_imp_sublist)
  qed
  show ?thesis
    unfolding Let_def using alert ok pre sub ex by blast
qed

theorem critical_delays_alert_witness:
  "check_for_critical_delays a_clock (Inr shop) =
     lit ''ALERT: 1 orders are critically delayed!'' @ nl @
     lit ''Affected Orders: O2'' @ nl @ lit ''Affected Customers: Ann'' \<and>
   prefix (lit ''ALERT'') (check_for_critical_delays a_clock (Inr shop)) \<and>
   check_for_critical_delays a_clock (Inr no_tables) =
     lit ''SUCCESS: No critical delivery delays found.''"
  using critical_delays_alert [of a_clock shop] critical_delays_alert [of a_clock no_tables]
  by (simp add: Let_def shop_def no_tables_def delivered_order_def shipped_order_def ann_def
      a_clock_def ns_per_day_def left_join_def text_str_def show_nat.simps digit_def lit_def)

subsection \<open>C8: fewer than five revenue rows\<close>

text \<open>
  C8: for every revenue table with fewer than 5 rows, whatever the rows hold and whatever
  the outlier model would predict, \<open>check_for_revenue_anomalies\<close> returns the fixed line
  of line 339, and that line does not contain \<open>CRITICAL\<close>, the keyword by which the
  dashboard tells an anomaly.
\<close>

theorem few_revenue_rows:
  assumes "length (revenue_df t) < 5"
  shows "check_for_revenue_anomalies predict (Inr t) =
           Inr (lit ''Not enough data points to run anomaly detection.'') \<and>
         \<not> sublist (lit ''CRITICAL'') (lit ''Not enough data points to run anomaly detection.'')"
proof -
  have "\<not> sublist (lit ''CRITICAL'') (lit ''Not enough data points to run anomaly detection.'')"
    by (simp add: lit_def sublist_Cons_right prefix_Cons)
  then show ?thesis
    using assms by (simp add: check_for_revenue_anomalies_def)
qed

theorem few_revenue_rows_witness:
  "length (revenue_df three_revenues) < 5 \<and>
   check_for_revenue_anomalies calm_forest (Inr three_revenues) =
     Inr (lit ''Not enough data points to run anomaly detection.'')"
proof -
  have h: "length (revenue_df three_revenues) < 5"
    by (simp add: three_revenues_def)
  from h few_revenue_rows [OF h, of calm_forest] show ?thesis
    by simp
qed

subsection \<open>C9: a customer id that is not in the table\<close>

text \<open>
  C9: for every input whose normalisation (\<open>strip\<close>, then \<open>upper\<close>) is the
  \<open>customer_id\<close> of no row of the Customer table, \<open>get_customer_orders\<close> returns (it
  does not raise) the not-found string of line 202, which contains the normalised id.
\<close>

theorem customer_not_found:
  assumes "\<forall>c \<in> set (customers_df t). c_customer_id c \<noteq> Some (upper U (strip cid))"
  shows "get_customer_orders U now (Inr t) cid =
           Inr (lit ''ERROR: Customer ID '' @ [39] @ upper U (strip cid) @ [39] @
                lit '' not found in the system.'') \<and>
         sublist (upper U (strip cid))
           (lit ''ERROR: Customer ID '' @ [39] @ upper U (strip cid) @ [39] @
            lit '' not found in the system.'')"
proof -
  have "filter (\<lambda>c. c_customer_id c = Some (upper U (strip cid))) (customers_df t) = []"
    using assms by (simp add: filter_empty_conv)
  moreover have "sublist (upper U (strip cid))
           (lit ''ERROR: Customer ID '' @ [39] @ upper U (strip cid) @ [39] @
            lit '' not found in the system.'')"
    unfolding sublist_def
    by (rule exI [of _ "lit ''ERROR: Customer ID '' @ [39]"],
        rule exI [of _ "[39] @ lit '' not found in the system.''"]) simp
  ultimately show ?thesis
    by (simp add: get_customer_orders_def Let_def)
qed

theorem customer_not_found_witness:
  "map c_customer_id (customers_df shop) = [Some (lit ''CUST_001'')] \<and>
   upper ascii_db (strip (lit ''  cust_002'')) = lit ''CUST_002'' \<and>
   get_customer_orders ascii_db a_clock (Inr shop) (lit ''  cust_002'') =
     Inr (lit ''ERROR: Customer ID '' @ [39] @ lit ''CUST_002'' @ [39] @
          lit '' not found in the system.'')"
proof -
  have u: "upper ascii_db (strip (lit ''  cust_002'')) = lit ''CUST_002''"
    by (simp add: str_eval)
  have c: "map c_customer_id (customers_df shop) = [Some (lit ''CUST_001'')]"
    by (simp add: shop_def ann_def)
  have h: "\<forall>c \<in> set (customers_df shop).
             c_customer_id c \<noteq> Some (upper ascii_db (strip (lit ''  cust_002'')))"
    by (simp add: u) (simp add: shop_def ann_def lit_def)
  from u c customer_not_found [OF h, of a_clock] show ?thesis
    by simp
qed

subsection \<open>C10: a Series result is never rendered as currency\<close>

text \<open>
  C10: whenever a snippet binds \<open>result\<close> to a Series, \<open>execute_pandas_code_business\<close>
  returns \<open>format_series_output\<close> of it under the default name \<open>Value\<close>, whose lower
  case contains neither \<open>amount\<close> nor \<open>revenue\<close>: the report is the header and one line
  per item, and the line of every float item holds the plain \<open>,.2f\<close> rendering (thousands
  separators, two decimals), in which no \<open>$\<close> occurs.
\<close>

theorem series_floats_plain:
  assumes "exec python_code (local_env t) = Inr env'"
      and "env' (lit ''result'') = Some (SeriesObj s)"
  shows "execute_pandas_code_business exec tb U (Inr t) python_code =
           Inr (format_series_output U s (lit ''Value'')) \<and>
         format_series_output U s (lit ''Value'') =
           chart @ lit '' Analysis Results ('' @ show_nat (length (items s)) @ lit '' items)'' @ nl @
           rule 70 @ nl @ nl @ concat (map (series_line U (lit ''Value'')) (items s)) \<and>
         (\<forall>idx f. (idx, PyFloat f) \<in> set (items s) \<longrightarrow>
            series_line U (lit ''Value'') (idx, PyFloat f) =
              triangle @ lit '' '' @ (case idx of LInt i \<Rightarrow> show_int i | LOther t \<Rightarrow> t) @ lit '': '' @
              fmt_comma_2f f @ nl \<and>
            36 \<notin> set (fmt_comma_2f f))"
  using assms
  by (simp add: execute_pandas_code_business_def format_series_output_def Let_def
      foldl_append_concat series_line_def lower_Value not_money_Value fmt_comma_2f_no_dollar)

theorem series_floats_plain_witness:
  "binding_interpreter (lit ''result'') (SeriesObj by_region) (lit ''result = totals'')
     (local_env no_tables) =
     Inr ((local_env no_tables)(lit ''result'' \<mapsto> SeriesObj by_region)) \<and>
   execute_pandas_code_business (binding_interpreter (lit ''result'') (SeriesObj by_region))
     no_traceback ascii_db (Inr no_tables) (lit ''result = totals'') =
     Inr (chart @ lit '' Analysis Results (2 items)'' @ nl @ rule 70 @ nl @ nl @
          triangle @ lit '' North: 600.50'' @ nl @ triangle @ lit '' South: 1,280.00'' @ nl)"
proof -
  have a: "binding_interpreter (lit ''result'') (SeriesObj by_region) (lit ''result = totals'')
     (local_env no_tables) =
     Inr ((local_env no_tables)(lit ''result'' \<mapsto> SeriesObj by_region))"
    by (simp add: binding_interpreter_def)
  have n: "fmt_comma_2f (Finite False 1201 (- 1)) = lit ''600.50''"
          "fmt_comma_2f (Finite False 5 8) = lit ''1,280.00''"
    by (simp_all add: hundredths_def show_nat.simps group3.simps two_digits_def digit_def lit_def)
  from a n
    series_floats_plain [where exec = "binding_interpreter (lit ''result'') (SeriesObj by_region)"
      and python_code = "lit ''result = totals''" and t = no_tables and U = ascii_db
      and tb = no_traceback
      and s = by_region
      and env' = "(local_env no_tables)(lit ''result'' \<mapsto> SeriesObj by_region)"]
  show ?thesis
    by (simp add: by_region_def show_nat.simps digit_def lit_def)
qed

end
